theory Spec2Isabelle
  imports Main "HOL-Library.Word"
begin

section \<open>JavaScript values used by the frontend\<close>

text \<open>
  A JavaScript string is a sequence of UTF-16 code units. Literals of the program are
  written as HOL strings and converted with \<open>lit\<close>. The only falsy string is the
  empty one; \<open>null\<close> and \<open>undefined\<close> are \<open>None\<close>.
\<close>

type_synonym js_string = "16 word list"

definition lit :: "string \<Rightarrow> js_string" where
  "lit s = map of_char s"

definition truthy :: "js_string option \<Rightarrow> bool" where
  "truthy v = (case v of None \<Rightarrow> False | Some s \<Rightarrow> s \<noteq> [])"

text \<open>
  \<open>String.prototype.trim\<close> removes leading and trailing WhiteSpace and
  LineTerminator code points (ECMAScript): TAB, LF, VT, FF, CR, SP, NBSP, the
  space separators of the BMP, LS, PS and the byte order mark.
\<close>

definition is_white :: "16 word \<Rightarrow> bool" where
  "is_white c =
     (c \<in> set [0x09, 0x0A, 0x0B, 0x0C, 0x0D, 0x20, 0xA0, 0x1680,
                0x2028, 0x2029, 0x202F, 0x205F, 0x3000, 0xFEFF]
      \<or> (0x2000 \<le> c \<and> c \<le> 0x200A))"

definition js_trim :: "js_string \<Rightarrow> js_string" where
  "js_trim s = rev (dropWhile is_white (rev (dropWhile is_white s)))"

section \<open>The shared api client (services/api.js)\<close>

datatype http_method = GET | POST | DELETE

record request =
  req_method :: http_method
  url :: string
  headers :: "string \<rightharpoonup> js_string"
  body :: "(string \<times> js_string) list"

text \<open>\<open>localStorage\<close>: \<open>getItem k\<close> is the stored string, or \<open>null\<close>.\<close>

type_synonym local_storage = "string \<rightharpoonup> js_string"

text \<open>
  The request interceptor:
  \<^verbatim>\<open>
  (config) => {
    const token = localStorage.getItem('token');
    if (token) { config.headers.Authorization = `Bearer ${token}`; }
    return config;
  }
  \<close>
\<close>

definition request_interceptor :: "local_storage \<Rightarrow> request \<Rightarrow> request" where
  "request_interceptor localStorage config =
     (let token = localStorage ''token'' in
      if truthy token
      then (case token of
              Some t \<Rightarrow> config\<lparr>headers := (headers config)(''Authorization'' \<mapsto> lit ''Bearer '' @ t)\<rparr>
            | None \<Rightarrow> config)
      else config)"

text \<open>
  \<open>axios.create\<close> gives every request the header \<open>Content-Type: application/json\<close>;
  each request passes through the interceptor before it is sent. The base URL is a
  deployment constant and is left out of \<open>url\<close>, which holds the path.
\<close>

definition api_request ::
  "local_storage \<Rightarrow> http_method \<Rightarrow> string \<Rightarrow> (string \<times> js_string) list \<Rightarrow> request" where
  "api_request localStorage m path data =
     request_interceptor localStorage
       \<lparr>req_method = m, url = path,
        headers = [''Content-Type'' \<mapsto> lit ''application/json''], body = data\<rparr>"

text \<open>\<open>chatAPI\<close> and \<open>googleAPI\<close>, the calls the pages make.\<close>

definition sendMessage :: "local_storage \<Rightarrow> js_string \<Rightarrow> request" where
  "sendMessage localStorage message =
     api_request localStorage POST ''/chat/message'' [(''message'', message)]"

definition sendMessageWithTools :: "local_storage \<Rightarrow> js_string \<Rightarrow> request" where
  "sendMessageWithTools localStorage message =
     api_request localStorage POST ''/chat/message/tools'' [(''message'', message)]"

definition getConnectionStatus :: "local_storage \<Rightarrow> request" where
  "getConnectionStatus localStorage = api_request localStorage GET ''/google/status'' []"

definition handleCallback_api :: "local_storage \<Rightarrow> js_string \<Rightarrow> request" where
  "handleCallback_api localStorage code =
     api_request localStorage POST ''/google/callback'' [(''code'', code)]"

text \<open>
  A rejected request carries \<open>err.response?.data?.detail\<close> or nothing; the pages
  show \<open>detail || fallback\<close>.
\<close>

datatype api_error = ApiError "js_string option"

definition detail_or :: "api_error \<Rightarrow> string \<Rightarrow> js_string" where
  "detail_or err fallback =
     (case err of ApiError d \<Rightarrow>
        (case d of Some s \<Rightarrow> if s \<noteq> [] then s else lit fallback | None \<Rightarrow> lit fallback))"

section \<open>The chat page (pages/Chat.jsx)\<close>

datatype role = User | Assistant

record message =
  msg_id :: int
  role :: role
  content :: js_string
  created_at :: js_string

record chat_state =
  messages :: "message list"
  input :: js_string
  loading :: bool
  error :: js_string
  googleConnected :: bool
  showGooglePrompt :: bool

text \<open>The body of a successful chat response: \<open>message_id\<close> and \<open>response\<close>.\<close>

record chat_response =
  message_id :: int
  response :: js_string

text \<open>
  What one call of \<open>handleSend\<close> depends on outside itself: the token store, the
  clock (\<open>Date.now()\<close> and the two \<open>toISOString()\<close> readings), the backend's
  answer to the request it sends, and what the other handlers of the component do to
  the state while that request is pending (\<open>loadHistory\<close> replaces the list by the
  server's, \<open>handleClearHistory\<close> empties it, typing changes the input).
\<close>

record send_env =
  storage :: local_storage
  date_now :: int
  iso_user :: js_string
  iso_assistant :: js_string
  server :: "request \<Rightarrow> api_error + chat_response"
  meanwhile :: "chat_state \<Rightarrow> chat_state"

text \<open>
  The outcome of a call: the component state after it, the requests it issued, and
  whether \<open>e.preventDefault()\<close> ran.
\<close>

record send_outcome =
  state :: chat_state
  requests :: "request list"
  defaultPrevented :: bool

text \<open>
  \<open>handleSend\<close> is an async function. Up to its \<open>await\<close> it runs without
  interruption (\<open>send_begin\<close>: the guard, the resets, the optimistic user message, the
  request); the component is rendered in that state while the request is pending. The
  rest (\<open>send_finish\<close>) runs when the request settles, on the state of that moment
  (\<open>meanwhile\<close> applied to the state \<open>send_begin\<close> left), since both list updates
  are functional (\<open>setMessages((prev) => ...)\<close>).
\<close>

definition send_begin :: "send_env \<Rightarrow> chat_state \<Rightarrow> (chat_state \<times> message \<times> request) option" where
  "send_begin env s =
     (if js_trim (input s) = [] \<or> loading s then None
      else
        let userMessage = js_trim (input s);
            s1 = s\<lparr>input := [], error := [], loading := True\<rparr>;
            tempUserMsg = \<lparr>msg_id = date_now env, role = User, content = userMessage,
                           created_at = iso_user env\<rparr>;
            s2 = s1\<lparr>messages := messages s1 @ [tempUserMsg]\<rparr>;
            endpoint = (if googleConnected s then sendMessageWithTools else sendMessage)
        in Some (s2, tempUserMsg, endpoint (storage env) userMessage))"

definition send_finish ::
  "send_env \<Rightarrow> message \<Rightarrow> api_error + chat_response \<Rightarrow> chat_state \<Rightarrow> chat_state" where
  "send_finish env tempUserMsg result s =
     (case result of
        Inr resp \<Rightarrow>
          s\<lparr>messages := messages s @
                [\<lparr>msg_id = message_id resp, role = Assistant, content = response resp,
                  created_at = iso_assistant env\<rparr>]\<rparr>
      | Inl err \<Rightarrow>
          s\<lparr>error := detail_or err ''Failed to send message'',
             messages := filter (\<lambda>msg. msg_id msg \<noteq> msg_id tempUserMsg) (messages s)\<rparr>)
     \<lparr>loading := False\<rparr>"

definition handleSend :: "send_env \<Rightarrow> chat_state \<Rightarrow> send_outcome" where
  "handleSend env s =
     (case send_begin env s of
        None \<Rightarrow> \<lparr>state = s, requests = [], defaultPrevented = True\<rparr>
      | Some (s2, tempUserMsg, req) \<Rightarrow>
          \<lparr>state = send_finish env tempUserMsg (server env req) (meanwhile env s2),
           requests = [req], defaultPrevented = True\<rparr>)"

text \<open>
  \<open>checkGoogleConnection\<close>, run once on mount: one status request; on success the
  flag becomes \<open>response.data.is_connected\<close> and, when that is false, the prompt is
  scheduled (2000 ms); on failure the error is only logged.
\<close>

record check_outcome =
  check_state :: chat_state
  check_requests :: "request list"
  prompt_after :: "nat option"

definition checkGoogleConnection ::
  "local_storage \<Rightarrow> (request \<Rightarrow> api_error + bool) \<Rightarrow> chat_state \<Rightarrow> check_outcome" where
  "checkGoogleConnection localStorage status_server s =
     (let req = getConnectionStatus localStorage in
      case status_server req of
        Inr is_connected \<Rightarrow>
          \<lparr>check_state = s\<lparr>googleConnected := is_connected\<rparr>, check_requests = [req],
           prompt_after = (if \<not> is_connected then Some 2000 else None)\<rparr>
      | Inl err \<Rightarrow> \<lparr>check_state = s, check_requests = [req], prompt_after = None\<rparr>)"



section \<open>The OAuth callback page (pages/GoogleCallback.jsx)\<close>

text \<open>
  \<open>URLSearchParams.get\<close>: the first value stored under the name, or \<open>null\<close>.
  The query string is given parsed, as the list of its name/value pairs.
\<close>

type_synonym search_params = "(string \<times> js_string) list"

definition params_get :: "search_params \<Rightarrow> string \<Rightarrow> js_string option" where
  "params_get params name = map_of params name"

text \<open>
  The effects of the handler, in the order it performs them. \<open>setToken\<close> comes from
  \<open>utils/auth\<close>, which is not among the sources: the call is recorded as an effect.
\<close>

datatype cb_effect =
    SetStatus js_string
  | SetError js_string
  | NavigateAfter string nat
  | BackendCall request
  | SetToken js_string
  | ConsoleError

definition handleCallback ::
  "local_storage \<Rightarrow> (request \<Rightarrow> api_error + js_string) \<Rightarrow> search_params \<Rightarrow> cb_effect list" where
  "handleCallback localStorage callback_server params =
     (let code = params_get params ''code'';
          err = params_get params ''error''
      in if truthy err
         then [SetError (lit ''OAuth error: '' @ (case err of Some e \<Rightarrow> e | None \<Rightarrow> [])),
               NavigateAfter ''/login'' 3000]
         else if \<not> truthy code
         then [SetError (lit ''No authorization code received''),
               NavigateAfter ''/login'' 3000]
         else
           (case code of
              None \<Rightarrow> []
            | Some c \<Rightarrow>
                let req = handleCallback_api localStorage c in
                [SetStatus (lit ''Connecting your Google account...''), BackendCall req] @
                (case callback_server req of
                   Inr access_token \<Rightarrow>
                     [SetToken access_token,
                      SetStatus (lit ''Success! Redirecting to chat...''),
                      NavigateAfter ''/chat'' 1000]
                 | Inl e \<Rightarrow>
                     [ConsoleError,
                      SetError (detail_or e ''Failed to connect Google account''),
                      NavigateAfter ''/login'' 3000])))"

section \<open>The backend core: credential lifecycle, tool dispatcher, orchestrator\<close>

text \<open>
  The backend that serves \<open>/chat/message/tools\<close> and \<open>/google/status\<close> is a Python
  service of the repository that is not among the sources; only its callers (the
  pages above) are. The definitions of this section are therefore written from the
  specification, sections 3, 4 and 6. What is outside the orchestrator (the OAuth
  provider, the Gmail and Calendar services, the completion capability) is a
  parameter; each such collaborator is given the trace of external calls made so
  far, so that its answers may change from one call to the next.
\<close>

type_synonym user = nat
type_synonym token = string

text \<open>Modelled from the spec: the Credential of section 3 (the backend's model classes are missing).\<close>

record credential =
  owner :: user
  access_token :: token
  refresh_token :: token
  expiry :: int
  scopes :: "string list"
  revoked :: bool

text \<open>Modelled from the spec: the three answers of \<open>status\<close> (section 4.1).\<close>

datatype cred_status = Connected | Absent | Revoked

text \<open>Modelled from the spec: the failure taxonomy of section 7 (the backend's error types are missing).\<close>

datatype failure =
    OAuthExchangeError
  | CredentialRevoked
  | CredentialTransientError
  | UnknownTool
  | RemoteRateLimited
  | RemoteUnavailable
  | RemoteBadRequest
  | RemoteAuthRejected
  | TurnTimeout

text \<open>Modelled from the spec: the Message of section 3 as the History Store keeps it.\<close>

record stored_message =
  sm_id :: nat
  sm_owner :: user
  sm_role :: role
  sm_text :: string
  sm_time :: int

text \<open>
  Modelled from the spec: what the completion capability is given (the recent messages and,
  in the fallback, a system note) and what it returns (section 6).
\<close>

datatype ctx_item = Turn role string | SystemNote string

datatype completion = DirectAnswer string | ToolCallRequest string string

text \<open>
  The external calls a run makes, in order: refreshes at the OAuth provider,
  executions of a remote tool, and the two kinds of call of the completion capability.
\<close>

datatype event =
    UpstreamRefresh user
  | RemoteCall user string
  | CompletionCall "ctx_item list" "string list option"
  | ToolResultCall string "failure + string"

text \<open>
  Modelled from the spec: the Credential Store and the History Store of section 2, together
  with the trace of external calls.
\<close>

record world =
  credentials :: "user \<rightharpoonup> credential"
  history :: "user \<Rightarrow> stored_message list"
  trace :: "event list"

text \<open>
  Modelled from the spec: the answers of the OAuth provider to a refresh (a new access token
  with its expiry, a rejected refresh token, a network failure; section 4.1) and of a
  remote service to an execution (a result, or an error of one of the four kinds the
  Dispatcher normalizes to; section 4.2).
\<close>

datatype refresh_reply = NewToken token int | RefreshRejected | RefreshUnreachable

datatype remote_error = RateLimited | Unavailable | BadRequest | AuthRejected

datatype remote_reply = RemoteOk string | RemoteFailed remote_error

text \<open>
  Modelled from the spec: the two classes of tool of section 4.2 (search and list tools are
  read-only, \<open>send_mail\<close>-class tools are mutating).
\<close>

datatype tool_kind = ReadOnly | Mutating

text \<open>
  Modelled from the spec: the configuration (safety margin, retry bound, history window), the
  closed tool registry and the external collaborators of section 6.
\<close>

record backend_env =
  margin :: int
  retry_bound :: nat
  history_limit :: nat
  registry :: "(string \<times> tool_kind) list"
  upstream_refresh :: "event list \<Rightarrow> token \<Rightarrow> refresh_reply"
  remote_exec :: "event list \<Rightarrow> string \<Rightarrow> string \<Rightarrow> token \<Rightarrow> remote_reply"
  complete :: "event list \<Rightarrow> ctx_item list \<Rightarrow> string list option \<Rightarrow> completion"
  completeWithToolResult :: "event list \<Rightarrow> ctx_item list \<Rightarrow> string \<Rightarrow> failure + string \<Rightarrow> string"

subsection \<open>Credential Lifecycle Manager (section 4.1)\<close>

text \<open>
  Modelled from the spec: \<open>status(user)\<close> of section 4.1 (the backend's lifecycle manager is
  missing). It reads the store and returns \<open>connected\<close>, \<open>absent\<close> or \<open>revoked\<close>; the
  world is returned with it, as for every operation of this section.
\<close>

definition status :: "user \<Rightarrow> world \<Rightarrow> cred_status \<times> world" where
  "status u w =
     ((case credentials w u of
         None \<Rightarrow> Absent
       | Some c \<Rightarrow> if revoked c then Revoked else Connected), w)"

text \<open>
  Modelled from the spec: the logical destruction of a Credential of section 3 (revoked flag
  set, tokens cleared).
\<close>

definition destroyed :: "credential \<Rightarrow> credential" where
  "destroyed c = c\<lparr>revoked := True, access_token := [], refresh_token := []\<rparr>"

text \<open>
  Modelled from the spec: the refresh of section 4.1, one upstream call with the stored
  refresh token. A new token is stored in place; a rejected refresh token moves the
  credential to \<open>revoked\<close> and fails with \<open>CredentialRevoked\<close>; a network failure
  fails with \<open>CredentialTransientError\<close> and leaves the credential as it was.
\<close>

definition refresh :: "backend_env \<Rightarrow> user \<Rightarrow> credential \<Rightarrow> world \<Rightarrow> (failure + token) \<times> world" where
  "refresh env u c w =
     (let w1 = w\<lparr>trace := trace w @ [UpstreamRefresh u]\<rparr> in
      case upstream_refresh env (trace w) (refresh_token c) of
        NewToken t e \<Rightarrow>
          (Inr t, w1\<lparr>credentials := (credentials w1)(u \<mapsto> c\<lparr>access_token := t, expiry := e\<rparr>)\<rparr>)
      | RefreshRejected \<Rightarrow>
          (Inl CredentialRevoked, w1\<lparr>credentials := (credentials w1)(u \<mapsto> destroyed c)\<rparr>)
      | RefreshUnreachable \<Rightarrow> (Inl CredentialTransientError, w1))"

text \<open>
  Modelled from the spec: \<open>getValidToken(user)\<close> of section 4.1. A token whose expiry is
  more than the safety margin away is returned unchanged; otherwise a refresh is
  performed. The spec names no failure for a user without a live credential; such a
  call fails with \<open>CredentialRevoked\<close> and makes no upstream call.
\<close>

definition getValidToken :: "backend_env \<Rightarrow> int \<Rightarrow> user \<Rightarrow> world \<Rightarrow> (failure + token) \<times> world" where
  "getValidToken env now u w =
     (case credentials w u of
        None \<Rightarrow> (Inl CredentialRevoked, w)
      | Some c \<Rightarrow>
          if revoked c then (Inl CredentialRevoked, w)
          else if margin env < expiry c - now then (Inr (access_token c), w)
          else refresh env u c w)"


text \<open>
  Modelled from the spec: the move to \<open>revoked\<close> when a second \<open>RemoteAuthRejected\<close> is
  treated as \<open>CredentialRevoked\<close> (section 4.2).
\<close>

definition mark_revoked :: "user \<Rightarrow> world \<Rightarrow> world" where
  "mark_revoked u w =
     (case credentials w u of
        None \<Rightarrow> w
      | Some c \<Rightarrow> w\<lparr>credentials := (credentials w)(u \<mapsto> destroyed c)\<rparr>)"

subsection \<open>Tool Dispatcher (section 4.2)\<close>







text \<open>The upstream refresh calls recorded in a trace.\<close>

definition upstream_refreshes :: "event list \<Rightarrow> nat" where
  "upstream_refreshes evs =
     length (filter (\<lambda>e. case e of UpstreamRefresh u \<Rightarrow> True | _ \<Rightarrow> False) evs)"

subsection \<open>Agent Orchestrator (section 4.3)\<close>
















section \<open>Concrete inputs used by the examples\<close>

definition plain_config :: request where
  "plain_config = \<lparr>req_method = GET, url = ''/chat/history'', headers = Map.empty, body = []\<rparr>"

definition empty_chat :: chat_state where
  "empty_chat = \<lparr>messages = [], input = [], loading = False, error = [],
                  googleConnected = False, showGooglePrompt = False\<rparr>"

definition answering_env :: send_env where
  "answering_env = \<lparr>storage = Map.empty, date_now = 1700000000000, iso_user = lit ''t1'',
                     iso_assistant = lit ''t2'',
                     server = (\<lambda>req. Inr \<lparr>message_id = 7, response = lit ''ok''\<rparr>),
                     meanwhile = (\<lambda>s. s)\<rparr>"

definition no_storage :: local_storage where
  "no_storage = Map.empty"



definition empty_token_storage :: local_storage where
  "empty_token_storage = [''token'' \<mapsto> []]"

definition granting_server :: "request \<Rightarrow> api_error + js_string" where
  "granting_server req = Inr (lit ''jwt'')"

definition empty_error_params :: search_params where
  "empty_error_params = [(''error'', []), (''code'', lit ''abc'')]"

text \<open>A registry with the four tools the spec names, and collaborators for the examples.\<close>

definition demo_registry :: "(string \<times> tool_kind) list" where
  "demo_registry =
     [(''search_mail'', ReadOnly), (''send_mail'', Mutating),
      (''list_events'', ReadOnly), (''search_events'', ReadOnly)]"

definition demo_credential :: credential where
  "demo_credential =
     \<lparr>owner = 0, access_token = ''at-1'', refresh_token = ''rt-1'', expiry = 1000,
      scopes = [''gmail'', ''calendar''], revoked = False\<rparr>"

definition demo_world :: world where
  "demo_world = \<lparr>credentials = [0 \<mapsto> demo_credential], history = (\<lambda>u. []), trace = []\<rparr>"

text \<open>
  The remote services are rate limited throughout, the OAuth provider rejects the
  refresh token, and the capability asks for \<open>search_mail\<close> when it is offered tools.
\<close>

definition demo_env :: backend_env where
  "demo_env =
     \<lparr>margin = 60, retry_bound = 1, history_limit = 20, registry = demo_registry,
      upstream_refresh = (\<lambda>tr rt. RefreshRejected),
      remote_exec = (\<lambda>tr name args tok. RemoteFailed RateLimited),
      complete = (\<lambda>tr ctx schema.
        case schema of
          Some tools \<Rightarrow> ToolCallRequest ''search_mail'' ''invoices''
        | None \<Rightarrow> DirectAnswer ''I cannot reach your Google account right now.''),
      completeWithToolResult = (\<lambda>tr ctx name res. ''Here is what I found.'')\<rparr>"

section \<open>Properties of the frontend\<close>

subsection \<open>Auxiliary facts\<close>

lemma js_trim_empty_iff: "js_trim s = [] \<longleftrightarrow> (\<forall>c\<in>set s. is_white c)"
proof
  assume "js_trim s = []"
  then have "dropWhile is_white (rev (dropWhile is_white s)) = []"
    by (simp add: js_trim_def)
  then have all: "\<forall>c\<in>set (dropWhile is_white s). is_white c"
    by simp
  have "dropWhile is_white s = []"
  proof (rule ccontr)
    assume ne: "dropWhile is_white s \<noteq> []"
    then have "\<not> is_white (hd (dropWhile is_white s))"
      by (rule hd_dropWhile)
    moreover from ne have "hd (dropWhile is_white s) \<in> set (dropWhile is_white s)"
      by simp
    ultimately show False using all by blast
  qed
  then show "\<forall>c\<in>set s. is_white c"
    by simp
next
  assume "\<forall>c\<in>set s. is_white c"
  then have e: "dropWhile is_white s = []"
    by simp
  show "js_trim s = []"
    unfolding js_trim_def e by simp
qed

lemma interceptor_frame:
  "req_method (request_interceptor ls c) = req_method c"
  "url (request_interceptor ls c) = url c"
  "body (request_interceptor ls c) = body c"
  by (simp_all add: request_interceptor_def Let_def split: option.splits)

lemma api_request_fields:
  "req_method (api_request ls m p d) = m"
  "url (api_request ls m p d) = p"
  "body (api_request ls m p d) = d"
  by (simp_all add: api_request_def interceptor_frame)

lemma send_begin_None: "send_begin env s = None \<longleftrightarrow> js_trim (input s) = [] \<or> loading s"
  by (simp add: send_begin_def Let_def)


subsection \<open>The endpoint of a chat turn\<close>




subsection \<open>The guard of a chat turn\<close>

text \<open>
  C8. When the input is empty or consists of whitespace only, or a send is still
  loading, \<open>handleSend\<close> issues no request and leaves the whole component state, the
  message list included, as it was. (The call of \<open>e.preventDefault()\<close> on the
  submit event stands before the guard and is therefore made in every case; it touches
  neither the component state nor the network.)
\<close>

theorem handleSend_guard_no_effect:
  assumes "(\<forall>c\<in>set (input s). is_white c) \<or> loading s"
  shows "requests (handleSend env s) = [] \<and> state (handleSend env s) = s \<and>
         messages (state (handleSend env s)) = messages s"
proof -
  from assms have "js_trim (input s) = [] \<or> loading s"
    by (simp add: js_trim_empty_iff)
  then have "send_begin env s = None"
    by (simp add: send_begin_None)
  then show ?thesis
    by (simp add: handleSend_def)
qed

theorem handleSend_guard_no_effect_witness:
  "requests (handleSend answering_env (empty_chat\<lparr>input := [0x20, 0x09, 0x0A]\<rparr>)) = [] \<and>
   state (handleSend answering_env (empty_chat\<lparr>input := [0x20, 0x09, 0x0A]\<rparr>)) =
     empty_chat\<lparr>input := [0x20, 0x09, 0x0A]\<rparr> \<and>
   requests (handleSend answering_env (empty_chat\<lparr>input := lit ''hi'', loading := True\<rparr>)) = []"
proof -
  have w: "(\<forall>c\<in>set (input (empty_chat\<lparr>input := [0x20, 0x09, 0x0A]\<rparr>)). is_white c) \<or>
           loading (empty_chat\<lparr>input := [0x20, 0x09, 0x0A]\<rparr>)"
    by (simp add: is_white_def)
  have l: "(\<forall>c\<in>set (input (empty_chat\<lparr>input := lit ''hi'', loading := True\<rparr>)). is_white c) \<or>
           loading (empty_chat\<lparr>input := lit ''hi'', loading := True\<rparr>)"
    by simp
  show ?thesis
    using handleSend_guard_no_effect [OF w, of answering_env]
      handleSend_guard_no_effect [OF l, of answering_env]
    by simp
qed

subsection \<open>The OAuth callback\<close>

text \<open>
  C9, as the code has it. The handler tests \<open>error\<close> and \<open>code\<close> for truthiness, so
  a parameter that is present with an empty value counts as missing. The backend
  exchange is attempted exactly when \<open>code\<close> is non-empty and \<open>error\<close> is absent or
  empty, and then with that code on \<open>/google/callback\<close>; a token is stored only on
  that path. When \<open>error\<close> is non-empty, or \<open>code\<close> is absent or empty, the handler
  does nothing but set the error text and schedule the redirect to \<open>/login\<close>.
\<close>

theorem handleCallback_exchange_iff_code_and_no_error:
  "((\<exists>req. BackendCall req \<in> set (handleCallback ls srv params)) \<longleftrightarrow>
      truthy (params_get params ''code'') \<and> \<not> truthy (params_get params ''error'')) \<and>
   (\<forall>req. BackendCall req \<in> set (handleCallback ls srv params) \<longrightarrow>
      (\<exists>c. params_get params ''code'' = Some c \<and> req = handleCallback_api ls c \<and>
           req_method req = POST \<and> url req = ''/google/callback'' \<and> body req = [(''code'', c)])) \<and>
   ((\<exists>tok. SetToken tok \<in> set (handleCallback ls srv params)) \<longrightarrow>
      truthy (params_get params ''code'') \<and> \<not> truthy (params_get params ''error'')) \<and>
   (truthy (params_get params ''error'') \<or> \<not> truthy (params_get params ''code'') \<longrightarrow>
      (\<exists>msg. handleCallback ls srv params = [SetError msg, NavigateAfter ''/login'' 3000]))"
  by (auto simp add: handleCallback_def Let_def truthy_def handleCallback_api_def
      api_request_fields split: option.splits sum.splits)

theorem handleCallback_exchange_iff_code_and_no_error_witness:
  "handleCallback Map.empty (\<lambda>req. Inr (lit ''jwt''))
     [(''error'', lit ''access_denied''), (''code'', lit ''abc'')] =
     [SetError (lit ''OAuth error: access_denied''), NavigateAfter ''/login'' 3000] \<and>
   handleCallback Map.empty (\<lambda>req. Inr (lit ''jwt'')) [] =
     [SetError (lit ''No authorization code received''), NavigateAfter ''/login'' 3000] \<and>
   BackendCall (handleCallback_api Map.empty (lit ''abc'')) \<in>
     set (handleCallback Map.empty (\<lambda>req. Inr (lit ''jwt'')) [(''code'', lit ''abc'')])"
  using handleCallback_exchange_iff_code_and_no_error
          [of Map.empty "\<lambda>req. Inr (lit ''jwt'')"
              "[(''error'', lit ''access_denied''), (''code'', lit ''abc'')]"]
        handleCallback_exchange_iff_code_and_no_error
          [of Map.empty "\<lambda>req. Inr (lit ''jwt'')" "[]"]
  by (simp add: handleCallback_def Let_def truthy_def params_get_def lit_def)

text \<open>
  The claim as worded fails for a callback URL such as \<open>?error=&code=abc\<close>: it
  carries an \<open>error\<close> parameter, yet the backend is called and the token is stored.
\<close>

theorem handleCallback_empty_error_still_exchanges:
  "params_get empty_error_params ''error'' = Some [] \<and>
   handleCallback no_storage granting_server empty_error_params =
     [SetStatus (lit ''Connecting your Google account...''),
      BackendCall (handleCallback_api no_storage (lit ''abc'')),
      SetToken (lit ''jwt''),
      SetStatus (lit ''Success! Redirecting to chat...''),
      NavigateAfter ''/chat'' 1000]"
  by (simp add: handleCallback_def Let_def truthy_def params_get_def lit_def
      empty_error_params_def granting_server_def)

subsection \<open>The request interceptor\<close>

text \<open>
  C10, as the code has it. The interceptor tests the stored token for truthiness. When
  \<open>localStorage\<close> holds a non-empty \<open>token\<close>, the returned config has the header
  \<open>Authorization\<close> set to \<open>Bearer\<close>, a space and the token; when there is no entry,
  or the entry is the empty string, the config is returned as it came. In every case
  the method, the path, the body and all other headers are unchanged.
\<close>

theorem request_interceptor_bearer_iff_nonempty_token:
  "headers (request_interceptor ls config) ''Authorization'' =
     (case ls ''token'' of
        Some t \<Rightarrow> if t \<noteq> [] then Some (lit ''Bearer '' @ t)
                  else headers config ''Authorization''
      | None \<Rightarrow> headers config ''Authorization'') \<and>
   (\<forall>h. h \<noteq> ''Authorization'' \<longrightarrow>
      headers (request_interceptor ls config) h = headers config h) \<and>
   req_method (request_interceptor ls config) = req_method config \<and>
   url (request_interceptor ls config) = url config \<and>
   body (request_interceptor ls config) = body config \<and>
   (ls ''token'' = None \<or> ls ''token'' = Some [] \<longrightarrow>
      request_interceptor ls config = config)"
  by (auto simp add: request_interceptor_def Let_def truthy_def split: option.splits)

theorem request_interceptor_bearer_iff_nonempty_token_witness:
  "headers (request_interceptor [''token'' \<mapsto> lit ''jwt''] plain_config) ''Authorization'' =
     Some (lit ''Bearer jwt'') \<and>
   headers (request_interceptor [''token'' \<mapsto> lit ''jwt''] plain_config) ''Content-Type'' =
     headers plain_config ''Content-Type'' \<and>
   request_interceptor Map.empty plain_config = plain_config"
  using request_interceptor_bearer_iff_nonempty_token [of "[''token'' \<mapsto> lit ''jwt'']" plain_config]
        request_interceptor_bearer_iff_nonempty_token [of Map.empty plain_config]
  by (simp add: lit_def)

text \<open>
  The claim as worded fails when the entry exists and is the empty string: no header
  is added.
\<close>

theorem request_interceptor_empty_token_no_header:
  "empty_token_storage ''token'' = Some [] \<and>
   headers (request_interceptor empty_token_storage plain_config) ''Authorization'' = None \<and>
   request_interceptor empty_token_storage plain_config = plain_config"
  by (simp add: request_interceptor_def Let_def truthy_def plain_config_def
      empty_token_storage_def)

section \<open>Properties of the backend core\<close>

subsection \<open>Frame facts of the collaborator calls\<close>





lemma mark_revoked_trace [simp]: "trace (mark_revoked u w) = trace w"
  by (simp add: mark_revoked_def split: option.splits)

subsection \<open>The status query\<close>

text \<open>
  C4. The status query returns one of \<open>connected\<close>, \<open>absent\<close> and \<open>revoked\<close>
  (\<open>absent\<close> exactly when the store holds no credential for the user, \<open>revoked\<close>
  exactly when it holds a revoked one) and returns the world as it was: the
  credentials are unchanged and no upstream refresh or other external call is made.
  On the frontend side the query is the single request \<open>GET /google/status\<close> of
  \<open>checkGoogleConnection\<close>, which carries no body.
\<close>

theorem status_is_pure_read:
  "snd (status u w) = w \<and>
   credentials (snd (status u w)) = credentials w \<and>
   trace (snd (status u w)) = trace w \<and>
   fst (status u w) \<in> {Connected, Absent, Revoked} \<and>
   (fst (status u w) = Absent \<longleftrightarrow> credentials w u = None) \<and>
   (fst (status u w) = Revoked \<longleftrightarrow> (\<exists>c. credentials w u = Some c \<and> revoked c)) \<and>
   check_requests (checkGoogleConnection ls status_server s) = [getConnectionStatus ls] \<and>
   req_method (getConnectionStatus ls) = GET \<and>
   url (getConnectionStatus ls) = ''/google/status'' \<and>
   body (getConnectionStatus ls) = []"
proof -
  have a: "snd (status u w) = w"
    by (simp add: status_def)
  have b: "fst (status u w) \<in> {Connected, Absent, Revoked}"
    by (cases "fst (status u w)") simp_all
  have c: "fst (status u w) = Absent \<longleftrightarrow> credentials w u = None"
    by (simp add: status_def split: option.splits)
  have d: "fst (status u w) = Revoked \<longleftrightarrow> (\<exists>c. credentials w u = Some c \<and> revoked c)"
    by (simp add: status_def split: option.splits)
  have e: "check_requests (checkGoogleConnection ls status_server s) = [getConnectionStatus ls]"
    by (simp add: checkGoogleConnection_def Let_def split: sum.splits)
  show ?thesis
    using a b c d e by (simp add: getConnectionStatus_def api_request_fields)
qed

subsection \<open>Token reuse within the safety margin\<close>

text \<open>
  C5. For a user whose live credential expires more than the safety margin after the
  time of the call, \<open>getValidToken\<close> returns the stored access token and leaves the
  world unchanged. Two calls in a row, both made while the expiry is still more than
  the margin away, both return that token, and the trace afterwards holds no more
  upstream refresh calls than before: none is issued.
\<close>

theorem getValidToken_idempotent_within_margin:
  assumes "credentials w u = Some c"
    and "\<not> revoked c"
    and "margin env < expiry c - now1"
    and "margin env < expiry c - now2"
  shows "getValidToken env now1 u w = (Inr (access_token c), w) \<and>
         getValidToken env now2 u (snd (getValidToken env now1 u w)) =
           (Inr (access_token c), w) \<and>
         upstream_refreshes
             (trace (snd (getValidToken env now2 u (snd (getValidToken env now1 u w))))) =
           upstream_refreshes (trace w)"
proof -
  have first: "getValidToken env now1 u w = (Inr (access_token c), w)"
    using assms(1,2,3) by (simp add: getValidToken_def)
  have second: "getValidToken env now2 u w = (Inr (access_token c), w)"
    using assms(1,2,4) by (simp add: getValidToken_def)
  show ?thesis
    by (simp add: first second)
qed

theorem getValidToken_idempotent_within_margin_witness:
  "getValidToken demo_env 100 0 demo_world = (Inr ''at-1'', demo_world) \<and>
   getValidToken demo_env 900 0 (snd (getValidToken demo_env 100 0 demo_world)) =
     (Inr ''at-1'', demo_world) \<and>
   upstream_refreshes
       (trace (snd (getValidToken demo_env 900 0 (snd (getValidToken demo_env 100 0 demo_world))))) = 0"
proof -
  have c: "credentials demo_world 0 = Some demo_credential"
    by (simp add: demo_world_def)
  have r: "\<not> revoked demo_credential"
    by (simp add: demo_credential_def)
  have m1: "margin demo_env < expiry demo_credential - 100"
    by (simp add: demo_env_def demo_credential_def)
  have m2: "margin demo_env < expiry demo_credential - 900"
    by (simp add: demo_env_def demo_credential_def)
  have a: "access_token demo_credential = ''at-1''"
    by (simp add: demo_credential_def)
  have t: "upstream_refreshes (trace demo_world) = 0"
    by (simp add: demo_world_def upstream_refreshes_def)
  from getValidToken_idempotent_within_margin [OF c r m1 m2]
  show ?thesis
    unfolding a t .
qed

subsection \<open>What an invocation does to the world\<close>
















subsection \<open>Fallback to plain chat when the credential is revoked\<close>






end
